theory Spec2Isabelle
  imports Main "HOL-Library.Word"
begin

unbundle bit_operations_syntax

section \<open>Bytes, paths, files\<close>

text \<open>
  putter.go serves one wiki file over HTTP and replaces it on PUT. The model keeps the part
  of the world the handlers touch: the \<open>Server\<close> struct and the files on disk. Every call
  of the standard library whose error the source checks is a place where the model can
  fail; whether it fails (a missing directory, a name that is a directory, no permission,
  a full disk) is read from an environment value \<open>env\<close> given with each request, together
  with the clock. The deferred \<open>Close\<close> calls, whose errors the source drops, can fail
  too, and then leave a cut-off file behind. \<open>os.Mkdir\<close> and \<open>os.Remove\<close>, whose results
  the source drops as well, touch no regular file.
\<close>

type_synonym byte = "8 word"
type_synonym bytes = "byte list"
type_synonym path = string

text \<open>
  A file is known by where its name leads, not by how the name is spelled: \<open>index.html\<close>,
  \<open>./index.html\<close> and \<open>old/../index.html\<close> are one file. Names are resolved the way a
  POSIX system without links resolves them: from the working directory unless the name
  starts with a slash, empty and \<open>.\<close> components dropped, \<open>..\<close> one step back.
\<close>

type_synonym fileid = "string list"
type_synonym filesys = "fileid \<rightharpoonup> bytes"

datatype error =
    ErrOpen path
  | ErrCreate path
  | ErrCopy
  | ErrRename path
  | ErrStat
  | ErrTempFile
  | ErrClose

text \<open>
  What the program takes from its host: the two codecs of the Go standard library that
  the server calls, \<open>crypto/md5\<close> (\<open>md5.New\<close>, writes, \<open>Sum(nil)\<close>) and \<open>compress/gzip\<close> at
  \<open>gzip.BestCompression\<close> (\<open>NewWriterLevel\<close>, writes, \<open>Close\<close>), and the working directory
  of the process. They are parameters of the model: every theorem below holds whatever
  functions of the written bytes the codecs are, and whatever the directory is.
\<close>

record host =
  md5sum :: "bytes \<Rightarrow> bytes"
  gzip :: "bytes \<Rightarrow> bytes"
  cwd :: path

text \<open>
  What the environment decides while one request (or the start-up) runs.
  \<open>now_format layout\<close> is \<open>time.Now().UTC().Format(layout)\<close>. A copy that fails leaves
  the bytes given by the environment in the destination, and so does a deferred \<open>Close\<close>
  that fails (for the \<open>.gz\<close> file, \<open>dstz.Close()\<close> and \<open>dst.Close()\<close> together).
\<close>

record env =
  now_format :: "string \<Rightarrow> string"
  tempfile_err :: bool
  upload_err :: bool
  close_err :: bool
  archive_open_err :: bool
  archive_create_err :: bool
  archive_copy_err :: "bytes option"
  archive_close_err :: "bytes option"
  rename_err :: bool
  gzip_open_err :: bool
  gzip_create_err :: bool
  gzip_copy_err :: "bytes option"
  gzip_close_err :: "bytes option"
  serve_open_err :: bool
  serve_stat_err :: bool
  boot_open_err :: bool
  boot_copy_err :: bool

definition enter :: "fileid \<Rightarrow> string \<Rightarrow> fileid" where
  "enter dir name =
     (if name = [] \<or> name = ''.'' then dir
      else if name = ''..'' then butlast dir
      else dir @ [name])"

fun walk :: "fileid \<Rightarrow> string \<Rightarrow> path \<Rightarrow> fileid \<times> string" where
  "walk dir name [] = (dir, name)"
| "walk dir name (c # cs) =
     (if c = CHR ''/'' then walk (enter dir name) [] cs else walk dir (name @ [c]) cs)"

definition absolute :: "path \<Rightarrow> path \<Rightarrow> path" where
  "absolute wd p = (if take 1 p = ''/'' then p else wd @ ''/'' @ p)"

definition resolve :: "host \<Rightarrow> path \<Rightarrow> fileid" where
  "resolve L p = (case walk [] [] (absolute (cwd L) p) of (dir, name) \<Rightarrow> enter dir name)"

definition os_Open :: "host \<Rightarrow> bool \<Rightarrow> filesys \<Rightarrow> path \<Rightarrow> error + fileid" where
  "os_Open L fault fs p =
     (if fault \<or> fs (resolve L p) = None then Inl (ErrOpen p) else Inr (resolve L p))"

definition os_Create :: "host \<Rightarrow> bool \<Rightarrow> filesys \<Rightarrow> path \<Rightarrow> error + (fileid \<times> filesys)" where
  "os_Create L fault fs p =
     (if fault then Inl (ErrCreate p) else Inr (resolve L p, fs(resolve L p \<mapsto> [])))"

definition os_Rename :: "host \<Rightarrow> bool \<Rightarrow> filesys \<Rightarrow> bytes \<Rightarrow> path \<Rightarrow> error + filesys" where
  "os_Rename L fault fs staged p =
     (if fault then Inl (ErrRename p) else Inr (fs(resolve L p \<mapsto> staged)))"

definition read_all :: "filesys \<Rightarrow> fileid \<Rightarrow> bytes" where
  "read_all fs f = (case fs f of None \<Rightarrow> [] | Some bs \<Rightarrow> bs)"

definition io_Copy ::
  "bytes option \<Rightarrow> (bytes \<Rightarrow> bytes) \<Rightarrow> filesys \<Rightarrow> fileid \<Rightarrow> fileid \<Rightarrow> error option \<times> filesys" where
  "io_Copy fault enc fs dst src =
     (case fault of
        Some junk \<Rightarrow> (Some ErrCopy, fs(dst \<mapsto> junk))
      | None \<Rightarrow> (None, fs(dst \<mapsto> enc (read_all fs src))))"

definition deferred_Close :: "bytes option \<Rightarrow> filesys \<Rightarrow> fileid \<Rightarrow> filesys" where
  "deferred_Close fault fs dst = (case fault of Some part \<Rightarrow> fs(dst \<mapsto> part) | None \<Rightarrow> fs)"

section \<open>Strings\<close>

definition headerAcceptEncoding :: string where "headerAcceptEncoding = ''Accept-Encoding''"
definition headerContentEncoding :: string where "headerContentEncoding = ''Content-Encoding''"
definition headerContentLength :: string where "headerContentLength = ''Content-Length''"
definition headerDav :: string where "headerDav = ''Dav''"
definition headerEtag :: string where "headerEtag = ''ETag''"
definition headerIfMatch :: string where "headerIfMatch = ''If-Match''"
definition encodingGzip :: string where "encodingGzip = ''gzip''"
definition extensionGzip :: string where "extensionGzip = ''.gz''"

fun HasPrefix :: "string \<Rightarrow> string \<Rightarrow> bool" where
  "HasPrefix s [] = True"
| "HasPrefix [] (p # ps) = False"
| "HasPrefix (c # cs) (p # ps) = (c = p \<and> HasPrefix cs ps)"

fun Contains :: "string \<Rightarrow> string \<Rightarrow> bool" where
  "Contains [] sub = (sub = [])"
| "Contains (c # cs) sub = (HasPrefix (c # cs) sub \<or> Contains cs sub)"

definition hextable :: string where
  "hextable = ''0123456789abcdef''"

definition EncodeToString :: "bytes \<Rightarrow> string" where
  "EncodeToString bs =
     concat (map (\<lambda>b. [hextable ! unat (drop_bit 4 b), hextable ! unat (b AND 0x0f)]) bs)"

fun FormatInt10 :: "nat \<Rightarrow> string" where
  "FormatInt10 n =
     (if n < 10 then [''0123456789'' ! n]
      else FormatInt10 (n div 10) @ [''0123456789'' ! (n mod 10)])"

declare FormatInt10.simps [simp del]

section \<open>The server\<close>

text \<open>
  \<open>sync.RWMutex\<close>: between two critical sections, all that is left of the mutex is a
  read lock that was not released and a writer that waits for it.
\<close>

record rwmutex =
  readers :: nat
  writer_waiting :: bool

record Server =
  mu :: rwmutex
  etag :: string
  fileName :: string
  archiveDirName :: string
  archiveFormat :: string
  isArchive :: bool
  isCompress :: bool

record state =
  srv :: Server
  files :: filesys

record request =
  Method :: string
  Path :: string
  AcceptEncoding :: string
  IfMatch :: string
  Body :: bytes

record response =
  status :: nat
  header :: "string \<rightharpoonup> string"
  content :: bytes

text \<open>
  What a handler leaves behind: the response it wrote; or nothing, when it waits for the
  mutex and never returns; or, for a GET, its last call
  \<open>http.ServeContent(w, r, s.fileName, fileInfo.ModTime(), f)\<close>, given by the headers the
  handler has set and the file it has opened. What the library then answers from the
  request's conditional and range headers, and the bytes it reads from that file after
  \<open>RUnlock\<close>, are not part of the handler and not part of this model.
\<close>

datatype reply =
    Written response
  | Waits
  | ServeContent "string \<rightharpoonup> string" fileid

definition StatusOK :: nat where "StatusOK = 200"
definition StatusNotFound :: nat where "StatusNotFound = 404"
definition StatusMethodNotAllowed :: nat where "StatusMethodNotAllowed = 405"
definition StatusPreconditionFailed :: nat where "StatusPreconditionFailed = 412"
definition StatusInternalServerError :: nat where "StatusInternalServerError = 500"

definition WriteHeader :: "nat \<Rightarrow> (string \<rightharpoonup> string) \<Rightarrow> response" where
  "WriteHeader code h = \<lparr>status = code, header = h, content = []\<rparr>"

definition quote :: string where
  "quote = [CHR 0x22]"

definition setEtagFromHash :: "bytes \<Rightarrow> Server \<Rightarrow> Server" where
  "setEtagFromHash digest s = s\<lparr>etag := quote @ EncodeToString digest @ quote\<rparr>"

text \<open>
  \<open>compressWiki\<close>. \<open>gzip.NewWriterLevel\<close> fails only for a level out of range, which
  \<open>gzip.BestCompression\<close> is not. \<open>os.Create\<close> empties a file that is there. The result is
  the named result \<open>err\<close>; the deferred \<open>dstz.Close()\<close> and \<open>dst.Close()\<close> run after it is
  set and their errors go nowhere.
\<close>

definition compressWiki :: "host \<Rightarrow> env \<Rightarrow> Server \<Rightarrow> filesys \<Rightarrow> error option \<times> filesys" where
  "compressWiki L e s fs =
     (if \<not> isCompress s then (None, fs)
      else case os_Open L (gzip_open_err e) fs (fileName s) of
        Inl err \<Rightarrow> (Some err, fs)
      | Inr src \<Rightarrow>
          (case os_Create L (gzip_create_err e) fs (fileName s @ extensionGzip) of
             Inl err \<Rightarrow> (Some err, fs)
           | Inr (dst, fs1) \<Rightarrow>
               (case io_Copy (gzip_copy_err e) (gzip L) fs1 dst src of
                  (err, fs2) \<Rightarrow> (err, deferred_Close (gzip_close_err e) fs2 dst))))"

text \<open>
  \<open>archiveWiki\<close>. \<open>os.Mkdir\<close>, whose error the source drops, writes no file; a directory
  that is missing shows as a failing \<open>os.Create\<close>. \<open>archivePath\<close> is the local
  \<open>filename\<close>.
\<close>

definition archivePath :: "env \<Rightarrow> Server \<Rightarrow> path" where
  "archivePath e s = archiveDirName s @ ''/'' @ now_format e (archiveFormat s)"

definition archiveWiki :: "host \<Rightarrow> env \<Rightarrow> Server \<Rightarrow> filesys \<Rightarrow> error option \<times> filesys" where
  "archiveWiki L e s fs =
     (if \<not> isArchive s then (None, fs)
      else case os_Open L (archive_open_err e) fs (fileName s) of
        Inl err \<Rightarrow> (Some err, fs)
      | Inr src \<Rightarrow>
          (case os_Create L (archive_create_err e) fs (archivePath e s) of
             Inl err \<Rightarrow> (Some err, fs)
           | Inr (dst, fs1) \<Rightarrow>
               (case io_Copy (archive_copy_err e) (\<lambda>bs. bs) fs1 dst src of
                  (err, fs2) \<Rightarrow> (err, deferred_Close (archive_close_err e) fs2 dst))))"

text \<open>
  \<open>newServer\<close>: \<open>log.Fatal\<close> ends the process, which is the \<open>Inl\<close> result. The struct
  literal stores \<open>isArchive\<close> in both flags, as the source does.
\<close>

definition newServer ::
  "host \<Rightarrow> env \<Rightarrow> filesys \<Rightarrow> string \<Rightarrow> string \<Rightarrow> string \<Rightarrow> bool \<Rightarrow> bool \<Rightarrow> error + state" where
  "newServer L e fs fileName' archiveDirName' archiveFormat' isArchive' isCompress' =
     (let s = \<lparr>mu = \<lparr>readers = 0, writer_waiting = False\<rparr>,
                etag = [],
                fileName = fileName',
                archiveDirName = archiveDirName',
                archiveFormat = archiveFormat',
                isArchive = isArchive',
                isCompress = isArchive'\<rparr>
      in case os_Open L (boot_open_err e) fs (fileName s) of
        Inl err \<Rightarrow> Inl err
      | Inr f \<Rightarrow>
          if boot_copy_err e then Inl ErrCopy
          else
            let s1 = setEtagFromHash (md5sum L (read_all fs f)) s
            in case compressWiki L e s1 fs of
                 (Some err, fs1) \<Rightarrow> Inl err
               | (None, fs1) \<Rightarrow> Inr \<lparr>srv = s1, files = fs1\<rparr>)"

text \<open>
  The handlers run their critical sections one at a time, which is what the mutex is for;
  the upload of a PUT is staged before \<open>Lock\<close> and touches the temporary file alone.
  \<open>RLock\<close> waits while a writer waits; \<open>Lock\<close> waits while a read lock is held.
\<close>

definition RLock_blocks :: "Server \<Rightarrow> bool" where
  "RLock_blocks s = writer_waiting (mu s)"

definition Lock_blocks :: "Server \<Rightarrow> bool" where
  "Lock_blocks s = (0 < readers (mu s) \<or> writer_waiting (mu s))"

definition leak_RLock :: "state \<Rightarrow> state" where
  "leak_RLock w = w\<lparr>srv := (srv w)\<lparr>mu := (mu (srv w))\<lparr>readers := Suc (readers (mu (srv w)))\<rparr>\<rparr>\<rparr>"

definition wait_Lock :: "state \<Rightarrow> state" where
  "wait_Lock w = w\<lparr>srv := (srv w)\<lparr>mu := (mu (srv w))\<lparr>writer_waiting := True\<rparr>\<rparr>\<rparr>"

text \<open>\<open>handleHead\<close>, \<open>handleOptions\<close> and \<open>handlePut\<close> give the response they wrote, or
  \<open>None\<close> when they wait for the mutex forever.\<close>

definition handleHead :: "state \<Rightarrow> response option \<times> state" where
  "handleHead w =
     (if RLock_blocks (srv w) then (None, w)
      else (Some (WriteHeader StatusOK [headerEtag \<mapsto> etag (srv w)]), w))"

definition handleOptions :: "state \<Rightarrow> response option \<times> state" where
  "handleOptions w = (Some (WriteHeader StatusOK [headerDav \<mapsto> ''putter'']), w)"

text \<open>
  \<open>handleGet\<close>, up to its call of \<open>http.ServeContent\<close>. The two error returns come
  before \<open>s.mu.RUnlock()\<close>, so the read lock stays held.
\<close>

definition handleGet :: "host \<Rightarrow> env \<Rightarrow> request \<Rightarrow> state \<Rightarrow> reply \<times> state" where
  "handleGet L e r w =
     (if RLock_blocks (srv w) then (Waits, w)
      else
        let s = srv w;
            etag' = etag s;
            gz = (isCompress s \<and> Contains (AcceptEncoding r) encodingGzip);
            extension = (if gz then extensionGzip else []);
            h = (if gz then [headerContentEncoding \<mapsto> encodingGzip] else Map.empty)
        in case os_Open L (serve_open_err e) (files w) (fileName s @ extension) of
             Inl err \<Rightarrow> (Written (WriteHeader StatusInternalServerError h), leak_RLock w)
           | Inr f \<Rightarrow>
               if serve_stat_err e
               then (Written (WriteHeader StatusInternalServerError h), leak_RLock w)
               else
                 (ServeContent
                    (h(headerContentLength \<mapsto> FormatInt10 (length (read_all (files w) f)),
                       headerEtag \<mapsto> etag'))
                    f, w))"

text \<open>
  \<open>handlePut\<close>. The upload is staged in a temporary file that \<open>ioutil.TempFile\<close> creates
  under a fresh name and the deferred \<open>os.Remove\<close> deletes; it is the local value
  \<open>Body r\<close> here, and \<open>os.Rename\<close> moves it onto the wiki's path.
\<close>

definition handlePut :: "host \<Rightarrow> env \<Rightarrow> request \<Rightarrow> state \<Rightarrow> response option \<times> state" where
  "handlePut L e r w =
     (let s = srv w in
      if tempfile_err e then (Some (WriteHeader StatusInternalServerError Map.empty), w)
      else if upload_err e then (Some (WriteHeader StatusInternalServerError Map.empty), w)
      else if close_err e then (Some (WriteHeader StatusInternalServerError Map.empty), w)
      else if Lock_blocks s then (None, wait_Lock w)
      else if IfMatch r \<noteq> [] \<and> IfMatch r \<noteq> etag s
      then (Some (WriteHeader StatusPreconditionFailed Map.empty), w)
      else case archiveWiki L e s (files w) of
        (Some err, fs1) \<Rightarrow>
          (Some (WriteHeader StatusInternalServerError Map.empty), w\<lparr>files := fs1\<rparr>)
      | (None, fs1) \<Rightarrow>
          (case os_Rename L (rename_err e) fs1 (Body r) (fileName s) of
             Inl err \<Rightarrow>
               (Some (WriteHeader StatusInternalServerError Map.empty), w\<lparr>files := fs1\<rparr>)
           | Inr fs2 \<Rightarrow>
               (case compressWiki L e s fs2 of
                  (Some err, fs3) \<Rightarrow>
                    (Some (WriteHeader StatusInternalServerError Map.empty), w\<lparr>files := fs3\<rparr>)
                | (None, fs3) \<Rightarrow>
                    let s' = setEtagFromHash (md5sum L (Body r)) s
                    in (Some (WriteHeader StatusOK [headerEtag \<mapsto> etag s']),
                        \<lparr>srv = s', files = fs3\<rparr>))))"

definition written :: "response option \<times> state \<Rightarrow> reply \<times> state" where
  "written x = (case x of (Some resp, w) \<Rightarrow> (Written resp, w) | (None, w) \<Rightarrow> (Waits, w))"

definition ServeHTTP :: "host \<Rightarrow> env \<Rightarrow> request \<Rightarrow> state \<Rightarrow> reply \<times> state" where
  "ServeHTTP L e r w =
     (if Path r \<noteq> ''/'' then (Written (WriteHeader StatusNotFound Map.empty), w)
      else if Method r = ''HEAD'' then written (handleHead w)
      else if Method r = ''OPTIONS'' then written (handleOptions w)
      else if Method r = ''GET'' then handleGet L e r w
      else if Method r = ''PUT'' then written (handlePut L e r w)
      else (Written (WriteHeader StatusMethodNotAllowed Map.empty), w))"


section \<open>Codecs for the worked examples\<close>

text \<open>
  The theorems quantify over the codecs; the worked examples need particular ones. For
  \<open>md5sum\<close> this is MD5 itself (RFC 1321), so the tokens of the examples are the ones
  the server prints. For \<open>gzip\<close> it is a gzip container (RFC 1952) around stored
  deflate blocks: a stream every gzip reader expands to the input, though not byte for
  byte the stream that \<open>compress/gzip\<close> writes.
\<close>

type_synonym u32 = "32 word"

definition md5_K :: "u32 list" where
  "md5_K =
     [0xd76aa478, 0xe8c7b756, 0x242070db, 0xc1bdceee, 0xf57c0faf, 0x4787c62a,
      0xa8304613, 0xfd469501, 0x698098d8, 0x8b44f7af, 0xffff5bb1, 0x895cd7be,
      0x6b901122, 0xfd987193, 0xa679438e, 0x49b40821, 0xf61e2562, 0xc040b340,
      0x265e5a51, 0xe9b6c7aa, 0xd62f105d, 0x02441453, 0xd8a1e681, 0xe7d3fbc8,
      0x21e1cde6, 0xc33707d6, 0xf4d50d87, 0x455a14ed, 0xa9e3e905, 0xfcefa3f8,
      0x676f02d9, 0x8d2a4c8a, 0xfffa3942, 0x8771f681, 0x6d9d6122, 0xfde5380c,
      0xa4beea44, 0x4bdecfa9, 0xf6bb4b60, 0xbebfbc70, 0x289b7ec6, 0xeaa127fa,
      0xd4ef3085, 0x04881d05, 0xd9d4d039, 0xe6db99e5, 0x1fa27cf8, 0xc4ac5665,
      0xf4292244, 0x432aff97, 0xab9423a7, 0xfc93a039, 0x655b59c3, 0x8f0ccc92,
      0xffeff47d, 0x85845dd1, 0x6fa87e4f, 0xfe2ce6e0, 0xa3014314, 0x4e0811a1,
      0xf7537e82, 0xbd3af235, 0x2ad7d2bb, 0xeb86d391]"

definition md5_S :: "nat list" where
  "md5_S = [7, 12, 17, 22, 7, 12, 17, 22, 7, 12, 17, 22, 7, 12, 17, 22,
            5, 9, 14, 20, 5, 9, 14, 20, 5, 9, 14, 20, 5, 9, 14, 20,
            4, 11, 16, 23, 4, 11, 16, 23, 4, 11, 16, 23, 4, 11, 16, 23,
            6, 10, 15, 21, 6, 10, 15, 21, 6, 10, 15, 21, 6, 10, 15, 21]"

definition rotl32 :: "u32 \<Rightarrow> nat \<Rightarrow> u32" where
  "rotl32 x n = push_bit n x OR drop_bit (32 - n) x"

definition le32 :: "bytes \<Rightarrow> u32" where
  "le32 bs = foldr (\<lambda>b acc. push_bit 8 acc OR ucast b) bs 0"

fun words_le :: "nat \<Rightarrow> bytes \<Rightarrow> u32 list" where
  "words_le 0 bs = []"
| "words_le (Suc n) bs = le32 (take 4 bs) # words_le n (drop 4 bs)"

definition bytes_le32 :: "u32 \<Rightarrow> bytes" where
  "bytes_le32 w = map (\<lambda>i. ucast (drop_bit (8 * i) w)) [0..<4]"

definition bytes_le64 :: "64 word \<Rightarrow> bytes" where
  "bytes_le64 w = map (\<lambda>i. ucast (drop_bit (8 * i) w)) [0..<8]"

definition md5_pad :: "bytes \<Rightarrow> bytes" where
  "md5_pad m = m @ [0x80] @ replicate ((119 - length m mod 64) mod 64) 0
                 @ bytes_le64 (8 * of_nat (length m))"

definition md5_round :: "u32 list \<Rightarrow> nat \<Rightarrow> u32 \<times> u32 \<times> u32 \<times> u32 \<Rightarrow> u32 \<times> u32 \<times> u32 \<times> u32" where
  "md5_round M i st =
     (case st of (a, b, c, d) \<Rightarrow>
        let (f, g) =
              (if i < 16 then ((b AND c) OR (NOT b AND d), i)
               else if i < 32 then ((d AND b) OR (NOT d AND c), (5 * i + 1) mod 16)
               else if i < 48 then (b XOR c XOR d, (3 * i + 5) mod 16)
               else (c XOR (b OR NOT d), (7 * i) mod 16));
            f' = f + a + md5_K ! i + M ! g
        in (d, b + rotl32 f' (md5_S ! i), b, c))"

definition md5_block :: "u32 \<times> u32 \<times> u32 \<times> u32 \<Rightarrow> bytes \<Rightarrow> u32 \<times> u32 \<times> u32 \<times> u32" where
  "md5_block st blk =
     (case st of (a0, b0, c0, d0) \<Rightarrow>
        case fold (md5_round (words_le 16 blk)) [0..<64] st of
          (a, b, c, d) \<Rightarrow> (a0 + a, b0 + b, c0 + c, d0 + d))"

fun md5_blocks :: "nat \<Rightarrow> u32 \<times> u32 \<times> u32 \<times> u32 \<Rightarrow> bytes \<Rightarrow> u32 \<times> u32 \<times> u32 \<times> u32" where
  "md5_blocks 0 st bs = st"
| "md5_blocks (Suc n) st bs = md5_blocks n (md5_block st (take 64 bs)) (drop 64 bs)"

definition md5_digest :: "bytes \<Rightarrow> bytes" where
  "md5_digest m =
     (let p = md5_pad m in
      case md5_blocks (length p div 64) (0x67452301, 0xefcdab89, 0x98badcfe, 0x10325476) p of
        (a, b, c, d) \<Rightarrow> concat (map bytes_le32 [a, b, c, d]))"

definition crc32_bit :: "u32 \<Rightarrow> u32" where
  "crc32_bit c = (if bit c 0 then drop_bit 1 c XOR 0xedb88320 else drop_bit 1 c)"

definition crc32_byte :: "byte \<Rightarrow> u32 \<Rightarrow> u32" where
  "crc32_byte b c = (crc32_bit ^^ 8) (c XOR ucast b)"

definition crc32 :: "bytes \<Rightarrow> u32" where
  "crc32 bs = NOT (fold crc32_byte bs (NOT 0))"

definition stored_block :: "bool \<Rightarrow> bytes \<Rightarrow> bytes" where
  "stored_block final bs =
     (let n = (of_nat (length bs) :: 16 word)
      in [if final then 1 else 0, ucast n, ucast (drop_bit 8 n),
          ucast (NOT n), ucast (drop_bit 8 (NOT n))] @ bs)"

fun stored_blocks :: "nat \<Rightarrow> bytes \<Rightarrow> bytes" where
  "stored_blocks 0 bs = stored_block True bs"
| "stored_blocks (Suc k) bs =
     stored_block False (take 65535 bs) @ stored_blocks k (drop 65535 bs)"

definition gzip_stored :: "bytes \<Rightarrow> bytes" where
  "gzip_stored bs =
     [0x1f, 0x8b, 8, 0, 0, 0, 0, 0, 2, 0xff]
     @ stored_blocks ((length bs - 1) div 65535) bs
     @ bytes_le32 (crc32 bs) @ bytes_le32 (of_nat (length bs))"

section \<open>What the properties speak about\<close>

text \<open>The upload reached the temporary file whole.\<close>

definition staged :: "env \<Rightarrow> bool" where
  "staged e = (\<not> tempfile_err e \<and> \<not> upload_err e \<and> \<not> close_err e)"

text \<open>No step of \<open>compressWiki\<close> returns an error.\<close>

definition gzip_ok :: "env \<Rightarrow> bool" where
  "gzip_ok e = (\<not> gzip_open_err e \<and> \<not> gzip_create_err e \<and> gzip_copy_err e = None)"

definition no_faults :: "env \<Rightarrow> bool" where
  "no_faults e =
     (staged e \<and> \<not> archive_open_err e \<and> \<not> archive_create_err e \<and> archive_copy_err e = None
      \<and> \<not> rename_err e \<and> gzip_ok e
      \<and> \<not> serve_open_err e \<and> \<not> serve_stat_err e \<and> \<not> boot_open_err e \<and> \<not> boot_copy_err e)"

text \<open>The ETag is the one \<open>setEtagFromHash\<close> gives for the bytes of the live wiki.\<close>

definition etag_current :: "host \<Rightarrow> state \<Rightarrow> bool" where
  "etag_current L w =
     (files w (resolve L (fileName (srv w))) \<noteq> None
      \<and> etag (srv w)
          = etag (setEtagFromHash
                    (md5sum L (read_all (files w) (resolve L (fileName (srv w))))) (srv w)))"

text \<open>The configuration part of the \<open>Server\<close> value.\<close>

definition same_config :: "Server \<Rightarrow> Server \<Rightarrow> bool" where
  "same_config s s' =
     (fileName s' = fileName s \<and> archiveDirName s' = archiveDirName s
      \<and> archiveFormat s' = archiveFormat s \<and> isArchive s' = isArchive s
      \<and> isCompress s' = isCompress s)"

text \<open>The archive file that a request would write is another file than the \<open>.gz\<close>
  file.\<close>

definition archive_spares_gz :: "host \<Rightarrow> Server \<Rightarrow> env \<Rightarrow> bool" where
  "archive_spares_gz L s e =
     (if isArchive s
      then resolve L (archivePath e s) \<noteq> resolve L (fileName s @ extensionGzip)
      else True)"



section \<open>A worked example\<close>

text \<open>
  The server runs in \<open>/srv/wiki\<close>, where \<open>index.html\<close> holds the two bytes \<open>v1\<close>, and
  starts with the default flags; the clock stands at 2026-11-02 10:00:00.000 UTC unless
  said otherwise.
\<close>

definition lib0 :: host where
  "lib0 = \<lparr>md5sum = md5_digest, gzip = gzip_stored, cwd = ''/srv/wiki''\<rparr>"

definition quiet :: env where
  "quiet = \<lparr>now_format = (\<lambda>layout. ''2026-11-02-10-00-00.000.html''),
             tempfile_err = False, upload_err = False, close_err = False,
             archive_open_err = False, archive_create_err = False, archive_copy_err = None,
             archive_close_err = None,
             rename_err = False,
             gzip_open_err = False, gzip_create_err = False, gzip_copy_err = None,
             gzip_close_err = None,
             serve_open_err = False, serve_stat_err = False,
             boot_open_err = False, boot_copy_err = False\<rparr>"

definition v1 :: bytes where "v1 = [0x76, 0x31]"
definition v2 :: bytes where "v2 = [0x76, 0x32]"
definition v3 :: bytes where "v3 = [0x76, 0x33]"

definition wiki_file :: fileid where
  "wiki_file = [''srv'', ''wiki'', ''index.html'']"

definition gz_file :: fileid where
  "gz_file = [''srv'', ''wiki'', ''index.html.gz'']"

definition old_000 :: fileid where
  "old_000 = [''srv'', ''wiki'', ''old'', ''2026-11-02-10-00-00.000.html'']"

definition old_001 :: fileid where
  "old_001 = [''srv'', ''wiki'', ''old'', ''2026-11-02-10-00-00.001.html'']"

definition disk0 :: filesys where
  "disk0 = [wiki_file \<mapsto> v1]"

definition layout0 :: string where
  "layout0 = ''2006-01-02-15-04-05.000.html''"

definition srv0 :: Server where
  "srv0 = \<lparr>mu = \<lparr>readers = 0, writer_waiting = False\<rparr>,
            etag = quote @ EncodeToString (md5_digest v1) @ quote,
            fileName = ''index.html'',
            archiveDirName = ''old'',
            archiveFormat = layout0,
            isArchive = True,
            isCompress = True\<rparr>"

definition w0 :: state where
  "w0 = \<lparr>srv = srv0, files = disk0(gz_file \<mapsto> gzip_stored v1)\<rparr>"

definition put_req :: "string \<Rightarrow> bytes \<Rightarrow> request" where
  "put_req token bs =
     \<lparr>Method = ''PUT'', Path = ''/'', AcceptEncoding = [], IfMatch = token, Body = bs\<rparr>"

definition get_req :: "string \<Rightarrow> request" where
  "get_req enc =
     \<lparr>Method = ''GET'', Path = ''/'', AcceptEncoding = enc, IfMatch = [], Body = []\<rparr>"

text \<open>The state after a first save of \<open>v2\<close>, and the environment one millisecond later.\<close>

definition w1 :: state where
  "w1 = \<lparr>srv = srv0\<lparr>etag := quote @ EncodeToString (md5_digest v2) @ quote\<rparr>,
          files = [wiki_file \<mapsto> v2, gz_file \<mapsto> gzip_stored v2, old_000 \<mapsto> v1]\<rparr>"

definition later :: env where
  "later = quiet\<lparr>now_format := (\<lambda>layout. ''2026-11-02-10-00-00.001.html'')\<rparr>"

text \<open>An environment in which \<open>os.Create\<close> of the \<open>.gz\<close> file fails, and the state a save
  of \<open>v2\<close> leaves behind under it.\<close>

definition gz_fails :: env where
  "gz_fails = quiet\<lparr>gzip_create_err := True\<rparr>"

definition w_torn :: state where
  "w_torn = \<lparr>srv = srv0,
              files = [wiki_file \<mapsto> v2, gz_file \<mapsto> gzip_stored v1, old_000 \<mapsto> v1]\<rparr>"

text \<open>An environment in which the deferred \<open>Close\<close> of the \<open>.gz\<close> file fails after three
  bytes have reached the disk, and the state a save of \<open>v2\<close> leaves behind under it.\<close>

definition gz_cut :: env where
  "gz_cut = quiet\<lparr>gzip_close_err := Some [0x1f, 0x8b, 8]\<rparr>"

definition w_cut :: state where
  "w_cut = \<lparr>srv = srv0\<lparr>etag := quote @ EncodeToString (md5_digest v2) @ quote\<rparr>,
             files = [wiki_file \<mapsto> v2, gz_file \<mapsto> [0x1f, 0x8b, 8], old_000 \<mapsto> v1]\<rparr>"


text \<open>The server started with \<open>--archive=false\<close> on the same disk.\<close>

definition w_plain :: state where
  "w_plain = \<lparr>srv = srv0\<lparr>isArchive := False, isCompress := False\<rparr>, files = disk0\<rparr>"

text \<open>An environment in which the copy into the \<open>.gz\<close> file breaks off after three bytes.\<close>

definition gz_breaks :: env where
  "gz_breaks = quiet\<lparr>gzip_copy_err := Some [0x1f, 0x8b, 8]\<rparr>"




section \<open>Basic facts\<close>

lemma extensionGzip_nonempty [simp]: "extensionGzip \<noteq> []"
  by (simp add: extensionGzip_def)

lemma etag_setEtagFromHash [simp]:
  "etag (setEtagFromHash d s) = quote @ EncodeToString d @ quote"
  by (simp add: setEtagFromHash_def)

lemma setEtagFromHash_fields [simp]:
  "mu (setEtagFromHash d s) = mu s"
  "fileName (setEtagFromHash d s) = fileName s"
  "archiveDirName (setEtagFromHash d s) = archiveDirName s"
  "archiveFormat (setEtagFromHash d s) = archiveFormat s"
  "isArchive (setEtagFromHash d s) = isArchive s"
  "isCompress (setEtagFromHash d s) = isCompress s"
  by (simp_all add: setEtagFromHash_def)

lemma status_codes_distinct [simp]:
  "StatusOK \<noteq> StatusInternalServerError" "StatusInternalServerError \<noteq> StatusOK"
  "StatusOK \<noteq> StatusPreconditionFailed" "StatusPreconditionFailed \<noteq> StatusOK"
  "StatusInternalServerError \<noteq> StatusPreconditionFailed"
  "StatusPreconditionFailed \<noteq> StatusInternalServerError"
  by (simp_all add: StatusOK_def StatusInternalServerError_def StatusPreconditionFailed_def)

lemma WriteHeader_sel [simp]:
  "status (WriteHeader c h) = c" "header (WriteHeader c h) = h" "content (WriteHeader c h) = []"
  by (simp_all add: WriteHeader_def)

subsection \<open>The \<open>.gz\<close> file is never the wiki\<close>

lemma walk_noslash:
  "CHR ''/'' \<notin> set t \<Longrightarrow> walk dir name t = (dir, name @ t)"
  by (induction t arbitrary: name) auto

lemma walk_append:
  "CHR ''/'' \<notin> set t \<Longrightarrow> walk dir name (p @ t) = (fst (walk dir name p), snd (walk dir name p) @ t)"
  by (induction p arbitrary: dir name) (auto simp: walk_noslash)

lemma absolute_gz: "absolute wd (p @ extensionGzip) = absolute wd p @ extensionGzip"
  by (cases p) (simp_all add: absolute_def extensionGzip_def)

lemma gz_name_proper:
  "name @ extensionGzip \<noteq> []" "name @ extensionGzip \<noteq> ''.''" "name @ extensionGzip \<noteq> ''..''"
proof -
  have l: "length (name @ extensionGzip) = length name + 3" by (simp add: extensionGzip_def)
  show "name @ extensionGzip \<noteq> []" by simp
  show "name @ extensionGzip \<noteq> ''.''"
  proof
    assume "name @ extensionGzip = ''.''"
    then have "length (name @ extensionGzip) = length ''.''" by (rule arg_cong)
    with l show False by simp
  qed
  show "name @ extensionGzip \<noteq> ''..''"
  proof
    assume "name @ extensionGzip = ''..''"
    then have "length (name @ extensionGzip) = length ''..''" by (rule arg_cong)
    with l show False by simp
  qed
qed

lemma enter_gz: "enter dir (name @ extensionGzip) = dir @ [name @ extensionGzip]"
  using gz_name_proper [of name] by (simp add: enter_def)

lemma butlast_not_longer: "butlast dir \<noteq> dir @ [x]"
proof
  assume "butlast dir = dir @ [x]"
  then have "length (butlast dir) = length (dir @ [x])" by (rule arg_cong)
  then show False by simp
qed

lemma enter_not_gz: "enter dir name \<noteq> dir @ [name @ extensionGzip]"
  by (simp add: enter_def butlast_not_longer)

lemma resolve_gz_neq [simp]:
  "resolve L (p @ extensionGzip) \<noteq> resolve L p"
  "resolve L p \<noteq> resolve L (p @ extensionGzip)"
proof -
  have "CHR ''/'' \<notin> set extensionGzip" by (simp add: extensionGzip_def)
  then have "resolve L (p @ extensionGzip)
    = enter (fst (walk [] [] (absolute (cwd L) p)))
            (snd (walk [] [] (absolute (cwd L) p)) @ extensionGzip)"
    by (simp add: resolve_def absolute_gz walk_append)
  moreover have "resolve L p
    = enter (fst (walk [] [] (absolute (cwd L) p))) (snd (walk [] [] (absolute (cwd L) p)))"
    by (simp add: resolve_def split: prod.splits)
  ultimately show "resolve L (p @ extensionGzip) \<noteq> resolve L p"
    using enter_not_gz by (simp add: enter_gz) metis
  then show "resolve L p \<noteq> resolve L (p @ extensionGzip)" by metis
qed

subsection \<open>archiveWiki and compressWiki\<close>

lemma archiveWiki_frame:
  "q \<noteq> resolve L (archivePath e s) \<Longrightarrow> snd (archiveWiki L e s fs) q = fs q"
  by (simp add: archiveWiki_def os_Open_def os_Create_def io_Copy_def deferred_Close_def
           split: option.splits)

lemma archiveWiki_disabled: "\<not> isArchive s \<Longrightarrow> archiveWiki L e s fs = (None, fs)"
  by (simp add: archiveWiki_def)


lemma archiveWiki_no_fault:
  assumes "\<not> archive_open_err e" "\<not> archive_create_err e" "archive_copy_err e = None"
    and "isArchive s \<Longrightarrow> fs (resolve L (fileName s)) \<noteq> None"
  shows "fst (archiveWiki L e s fs) = None"
  using assms
  by (auto simp: archiveWiki_def os_Open_def os_Create_def io_Copy_def)

lemma compressWiki_frame:
  "q \<noteq> resolve L (fileName s @ extensionGzip) \<Longrightarrow> snd (compressWiki L e s fs) q = fs q"
  by (simp add: compressWiki_def os_Open_def os_Create_def io_Copy_def deferred_Close_def
           split: option.splits)

lemma compressWiki_disabled: "\<not> isCompress s \<Longrightarrow> compressWiki L e s fs = (None, fs)"
  by (simp add: compressWiki_def)

lemma compressWiki_ok:
  assumes "compressWiki L e s fs = (None, fs1)" and "isCompress s"
  shows "fs (resolve L (fileName s)) \<noteq> None
       \<and> fs1 = deferred_Close (gzip_close_err e)
                 (fs(resolve L (fileName s @ extensionGzip)
                       \<mapsto> gzip L (read_all fs (resolve L (fileName s)))))
                 (resolve L (fileName s @ extensionGzip))"
  using assms
  by (auto simp: compressWiki_def os_Open_def os_Create_def io_Copy_def read_all_def
           split: if_splits option.splits)

lemma compressWiki_no_fault:
  assumes "\<not> gzip_open_err e" "\<not> gzip_create_err e" "gzip_copy_err e = None"
    and "fs (resolve L (fileName s)) \<noteq> None"
  shows "fst (compressWiki L e s fs) = None"
  using assms
  by (auto simp: compressWiki_def os_Open_def os_Create_def io_Copy_def)

subsection \<open>handlePut, branch by branch\<close>

lemma handlePut_checked:
  assumes "staged e" and "\<not> Lock_blocks (srv w)"
  shows "handlePut L e r w =
     (if IfMatch r \<noteq> [] \<and> IfMatch r \<noteq> etag (srv w)
      then (Some (WriteHeader StatusPreconditionFailed Map.empty), w)
      else case archiveWiki L e (srv w) (files w) of
        (Some err, fs1) \<Rightarrow>
          (Some (WriteHeader StatusInternalServerError Map.empty), w\<lparr>files := fs1\<rparr>)
      | (None, fs1) \<Rightarrow>
          if rename_err e
          then (Some (WriteHeader StatusInternalServerError Map.empty), w\<lparr>files := fs1\<rparr>)
          else
            (case compressWiki L e (srv w) (fs1(resolve L (fileName (srv w)) \<mapsto> Body r)) of
               (Some err, fs3) \<Rightarrow>
                 (Some (WriteHeader StatusInternalServerError Map.empty), w\<lparr>files := fs3\<rparr>)
             | (None, fs3) \<Rightarrow>
                 (Some (WriteHeader StatusOK
                    [headerEtag \<mapsto> quote @ EncodeToString (md5sum L (Body r)) @ quote]),
                  \<lparr>srv = setEtagFromHash (md5sum L (Body r)) (srv w), files = fs3\<rparr>)))"
  using assms
  by (simp add: handlePut_def Let_def staged_def os_Rename_def split: prod.splits option.splits)

lemma handlePut_OK_D:
  assumes "handlePut L e r w = (Some resp, w')" and "status resp = StatusOK"
  shows "staged e \<and> \<not> Lock_blocks (srv w)
       \<and> (IfMatch r = [] \<or> IfMatch r = etag (srv w))
       \<and> \<not> rename_err e
       \<and> fst (archiveWiki L e (srv w) (files w)) = None
       \<and> compressWiki L e (srv w)
            ((snd (archiveWiki L e (srv w) (files w)))(resolve L (fileName (srv w)) \<mapsto> Body r))
           = (None, files w')
       \<and> srv w' = setEtagFromHash (md5sum L (Body r)) (srv w)
       \<and> resp = WriteHeader StatusOK [headerEtag \<mapsto> quote @ EncodeToString (md5sum L (Body r)) @ quote]"
  using assms
  by (auto simp: handlePut_def Let_def staged_def os_Rename_def
           split: if_splits prod.splits option.splits)

subsection \<open>Hexadecimal\<close>




lemma EncodeToString_length: "length (EncodeToString bs) = 2 * length bs"
  by (induction bs) (simp_all add: EncodeToString_def)



section \<open>The worked example, evaluated\<close>

lemma md5_v1: "EncodeToString (md5_digest v1) = ''6654c734ccab8f440ff0825eb443dc7f''"
  unfolding v1_def by code_simp

lemma md5_v2: "EncodeToString (md5_digest v2) = ''1b267619c4812cc46ee281747884ca50''"
  unfolding v2_def by code_simp

lemma resolve_examples:
  "resolve lib0 ''index.html'' = wiki_file"
  "resolve lib0 ''./index.html'' = wiki_file"
  "resolve lib0 ''old/../index.html'' = wiki_file"
  "resolve lib0 ''/srv/wiki/index.html'' = wiki_file"
  "resolve lib0 ''index.html.gz'' = gz_file"
  "resolve lib0 ''old/2026-11-02-10-00-00.000.html'' = old_000"
  "resolve lib0 ''old/2026-11-02-10-00-00.001.html'' = old_001"
  by (simp_all add: resolve_def absolute_def enter_def lib0_def
                    wiki_file_def gz_file_def old_000_def old_001_def)

lemma files_apart:
  "wiki_file \<noteq> gz_file" "gz_file \<noteq> wiki_file"
  "wiki_file \<noteq> old_000" "old_000 \<noteq> wiki_file" "wiki_file \<noteq> old_001" "old_001 \<noteq> wiki_file"
  "gz_file \<noteq> old_000" "old_000 \<noteq> gz_file" "gz_file \<noteq> old_001" "old_001 \<noteq> gz_file"
  "old_000 \<noteq> old_001" "old_001 \<noteq> old_000"
  by (simp_all add: wiki_file_def gz_file_def old_000_def old_001_def)

lemmas example_defs =
  quiet_def disk0_def layout0_def srv0_def w0_def put_req_def get_req_def

lemmas step_defs =
  handlePut_def handleGet_def handleHead_def handleOptions_def ServeHTTP_def written_def
  newServer_def archiveWiki_def archivePath_def compressWiki_def setEtagFromHash_def
  os_Open_def os_Create_def os_Rename_def io_Copy_def deferred_Close_def read_all_def
  Lock_blocks_def RLock_blocks_def leak_RLock_def wait_Lock_def WriteHeader_def
  extensionGzip_def encodingGzip_def resolve_examples files_apart

lemma lib0_sel [simp]: "md5sum lib0 = md5_digest" "gzip lib0 = gzip_stored"
  by (simp_all add: lib0_def)

lemma boot0: "newServer lib0 quiet disk0 ''index.html'' ''old'' layout0 True True = Inr w0"
  by (simp add: example_defs step_defs)

lemma put_v2:
  "handlePut lib0 quiet (put_req tok v2) w0 =
     (if tok = [] \<or> tok = etag srv0
      then (Some (WriteHeader StatusOK [headerEtag \<mapsto> etag (srv w1)]), w1)
      else (Some (WriteHeader StatusPreconditionFailed Map.empty), w0))"
  by (auto simp add: example_defs step_defs w1_def Let_def fun_eq_iff)

lemma etag_w1: "etag (srv w1) = quote @ ''1b267619c4812cc46ee281747884ca50'' @ quote"
  by (simp add: w1_def md5_v2)

lemma etag_srv0: "etag srv0 = quote @ ''6654c734ccab8f440ff0825eb443dc7f'' @ quote"
  by (simp add: srv0_def md5_v1)

lemma w1_unlocked: "\<not> Lock_blocks (srv w1)" "\<not> RLock_blocks (srv w1)"
  by (simp_all add: w1_def srv0_def Lock_blocks_def RLock_blocks_def)

lemma w0_unlocked: "\<not> Lock_blocks (srv w0)" "\<not> RLock_blocks (srv w0)"
  by (simp_all add: w0_def srv0_def Lock_blocks_def RLock_blocks_def)

lemma quiet_no_faults: "no_faults quiet" "staged quiet" "gzip_ok quiet"
  by (simp_all add: quiet_def no_faults_def staged_def gzip_ok_def)

lemma boot_plain:
  "newServer lib0 quiet disk0 ''index.html'' ''old'' layout0 False True = Inr w_plain"
  by (simp add: example_defs step_defs w_plain_def)

lemma get_gzip_w0:
  "handleGet lib0 quiet (get_req ''gzip'') w0 =
     (ServeContent [headerContentEncoding \<mapsto> encodingGzip,
                    headerContentLength \<mapsto> FormatInt10 (length (gzip_stored v1)),
                    headerEtag \<mapsto> etag srv0] gz_file, w0)"
  by (simp add: example_defs step_defs Let_def)

lemma get_gzip_w_plain:
  "handleGet lib0 quiet (get_req ''gzip'') w_plain =
     (ServeContent [headerContentLength \<mapsto> ''2'', headerEtag \<mapsto> etag srv0] wiki_file,
      w_plain)"
  by (simp add: example_defs step_defs w_plain_def Let_def v1_def FormatInt10.simps)


lemma get_torn:
  "handleGet lib0 quiet (get_req []) w_torn =
     (ServeContent [headerContentLength \<mapsto> ''2'', headerEtag \<mapsto> etag srv0] wiki_file,
      w_torn)"
  by (simp add: example_defs step_defs w_torn_def Let_def v2_def FormatInt10.simps)





section \<open>What every request leaves alone\<close>

lemma same_config_refl [simp]: "same_config s s"
  by (simp add: same_config_def)


lemma archivePath_same_config: "same_config s s' \<Longrightarrow> archivePath e s' = archivePath e s"
  by (simp add: same_config_def archivePath_def)



lemma handleGet_files: "files (snd (handleGet L e r w)) = files w"
  by (simp add: handleGet_def Let_def leak_RLock_def split: sum.splits)

lemma handleGet_etag: "etag (srv (snd (handleGet L e r w))) = etag (srv w)"
  by (simp add: handleGet_def Let_def leak_RLock_def split: sum.splits)

lemma snd_written [simp]: "snd (written x) = snd x"
  by (simp add: written_def split: prod.splits option.splits)

lemma written_Written [simp]: "(written x = (Written resp, w')) = (x = (Some resp, w'))"
  by (auto simp: written_def split: prod.splits option.splits)


lemma ServeHTTP_not_PUT:
  "Method r \<noteq> ''PUT'' \<or> Path r \<noteq> ''/'' \<Longrightarrow>
     files (snd (ServeHTTP L e r w)) = files w
     \<and> etag (srv (snd (ServeHTTP L e r w))) = etag (srv w)"
  by (auto simp: ServeHTTP_def handleHead_def handleOptions_def handleGet_files handleGet_etag)



lemma newServer_flags_aux:
  "case newServer L e fs f d fmt a c of
     Inl err \<Rightarrow> True
   | Inr wb \<Rightarrow>
       isCompress (srv wb) = a \<and> isArchive (srv wb) = a \<and> fileName (srv wb) = f
       \<and> archiveDirName (srv wb) = d \<and> archiveFormat (srv wb) = fmt
       \<and> mu (srv wb) = \<lparr>readers = 0, writer_waiting = False\<rparr>"
  by (simp add: newServer_def Let_def split: sum.splits prod.splits option.splits)

lemma newServer_flags:
  assumes "newServer L e fs f d fmt a c = Inr wb"
  shows "isCompress (srv wb) = a \<and> isArchive (srv wb) = a \<and> fileName (srv wb) = f
       \<and> archiveDirName (srv wb) = d \<and> archiveFormat (srv wb) = fmt
       \<and> mu (srv wb) = \<lparr>readers = 0, writer_waiting = False\<rparr>"
  using newServer_flags_aux [where L = L and e = e and fs = fs and f = f and d = d
                               and fmt = fmt and a = a and c = c] assms by simp

lemma newServer_files_aux:
  "case newServer L e fs f d fmt a c of
     Inl err \<Rightarrow> True
   | Inr wb \<Rightarrow>
       fs (resolve L f) \<noteq> None
       \<and> etag (srv wb) = quote @ EncodeToString (md5sum L (read_all fs (resolve L f))) @ quote
       \<and> compressWiki L e (srv wb) fs = (None, files wb)"
  by (auto simp: newServer_def Let_def os_Open_def split: sum.splits prod.splits option.splits)

lemma newServer_files:
  assumes "newServer L e fs f d fmt a c = Inr wb"
  shows "fs (resolve L f) \<noteq> None
       \<and> etag (srv wb) = quote @ EncodeToString (md5sum L (read_all fs (resolve L f))) @ quote
       \<and> compressWiki L e (srv wb) fs = (None, files wb)"
  using newServer_files_aux [where L = L and e = e and fs = fs and f = f and d = d
                               and fmt = fmt and a = a and c = c] assms by simp


section \<open>Conditional PUT\<close>

text \<open>
  Claim C2. A PUT whose \<open>If-Match\<close> value is not empty and differs from the server's ETag
  changes neither the files (the wiki, its \<open>.gz\<close> file, the archive) nor the ETag, whatever
  the environment does. When the upload was staged and the lock is free, so that the
  handler reaches the comparison, the answer is 412 and the whole state is as before.
\<close>

theorem put_conflict:
  assumes "IfMatch r \<noteq> []" and "IfMatch r \<noteq> etag (srv w)"
  shows "files (snd (handlePut L e r w)) = files w
       \<and> etag (srv (snd (handlePut L e r w))) = etag (srv w)
       \<and> (staged e \<and> \<not> Lock_blocks (srv w) \<longrightarrow>
            handlePut L e r w = (Some (WriteHeader StatusPreconditionFailed Map.empty), w))"
  using assms by (simp add: handlePut_def Let_def staged_def wait_Lock_def)

text \<open>The scenario of the specification: after the save of \<open>v2\<close>, a save of \<open>v3\<close>
  with the token of \<open>v1\<close> is refused.\<close>

theorem put_conflict_witness:
  "IfMatch (put_req (etag srv0) v3) \<noteq> []
   \<and> IfMatch (put_req (etag srv0) v3) \<noteq> etag (srv w1)
   \<and> staged later \<and> \<not> Lock_blocks (srv w1)
   \<and> handlePut lib0 later (put_req (etag srv0) v3) w1
       = (Some (WriteHeader StatusPreconditionFailed Map.empty), w1)"
proof -
  have a: "IfMatch (put_req (etag srv0) v3) \<noteq> []"
    by (simp add: put_req_def etag_srv0 quote_def)
  have b: "IfMatch (put_req (etag srv0) v3) \<noteq> etag (srv w1)"
    by (simp add: put_req_def etag_srv0 etag_w1 quote_def)
  have c: "staged later"
    by (simp add: later_def quiet_def staged_def)
  show ?thesis
    using put_conflict [OF a b, of lib0 later] a b c w1_unlocked(1) by simp
qed



text \<open>
  Claim C8. A PUT without an \<open>If-Match\<close> value (the header absent or empty) is saved
  whatever the server's ETag is: when no step fails, the lock is free and, with archiving
  on, the wiki file is there to be copied, the answer is 200, the wiki holds the uploaded
  bytes and the ETag is the token of those bytes.
\<close>

theorem put_unconditional:
  assumes "IfMatch r = []" and "no_faults e" and "\<not> Lock_blocks (srv w)"
    and "isArchive (srv w) \<Longrightarrow> files w (resolve L (fileName (srv w))) \<noteq> None"
  shows "\<exists>resp w'. handlePut L e r w = (Some resp, w')
           \<and> status resp = StatusOK
           \<and> files w' (resolve L (fileName (srv w'))) = Some (Body r)
           \<and> etag (srv w') = quote @ EncodeToString (md5sum L (Body r)) @ quote"
proof -
  let ?s = "srv w"
  obtain ea fs1 where a: "archiveWiki L e ?s (files w) = (ea, fs1)" by force
  have ea: "ea = None"
    using archiveWiki_no_fault [where e = e and s = "?s" and fs = "files w" and L = L] assms(2,4) a by (simp add: no_faults_def gzip_ok_def)
  let ?fs2 = "fs1(resolve L (fileName ?s) \<mapsto> Body r)"
  obtain ec fs3 where c: "compressWiki L e ?s ?fs2 = (ec, fs3)" by force
  have ec: "ec = None"
    using compressWiki_no_fault [where e = e and s = "?s" and fs = "?fs2" and L = L] assms(2) c by (simp add: no_faults_def gzip_ok_def)
  have "fs3 (resolve L (fileName ?s)) = ?fs2 (resolve L (fileName ?s))"
    using compressWiki_frame
      [where q = "resolve L (fileName ?s)" and s = "?s" and L = L and e = e and fs = "?fs2"] c
    by simp
  then show ?thesis
    using assms(1,2,3) a c ea ec by (simp add: handlePut_checked no_faults_def gzip_ok_def)
qed

theorem put_unconditional_witness:
  "IfMatch (put_req [] v3) = [] \<and> no_faults later \<and> \<not> Lock_blocks (srv w1)
   \<and> files w1 (resolve lib0 (fileName (srv w1))) \<noteq> None
   \<and> (\<exists>resp w'. handlePut lib0 later (put_req [] v3) w1 = (Some resp, w')
         \<and> status resp = StatusOK
         \<and> files w' (resolve lib0 (fileName (srv w'))) = Some v3
         \<and> etag (srv w') = quote @ EncodeToString (md5_digest v3) @ quote)"
proof -
  have a: "IfMatch (put_req [] v3) = []" by (simp add: put_req_def)
  have b: "no_faults later"
    by (simp add: later_def quiet_def no_faults_def staged_def gzip_ok_def)
  have c: "files w1 (resolve lib0 (fileName (srv w1))) \<noteq> None"
    by (simp add: w1_def srv0_def resolve_examples)
  show ?thesis
    using put_unconditional [OF a b w1_unlocked(1) c] a b c w1_unlocked(1)
    by (simp add: put_req_def)
qed

text \<open>
  Claim C10. The comparison is equality of strings with the stored ETag. For a PUT that
  reaches it with a non-empty \<open>If-Match\<close> value, the answer is 412 exactly when the value
  is not the stored string; and when the stored string is the quoted digest, the digest
  without quotes, the weak form \<open>W/"..."\<close>, the wildcard \<open>*\<close> and a list that starts
  with the right token are all refused.
\<close>

theorem if_match_exact:
  assumes "staged e" and "\<not> Lock_blocks (srv w)" and "IfMatch r \<noteq> []"
  shows "\<exists>resp w'. handlePut L e r w = (Some resp, w')
           \<and> ((status resp = StatusPreconditionFailed) = (IfMatch r \<noteq> etag (srv w)))
           \<and> (etag (srv w) = quote @ EncodeToString d @ quote
                \<and> IfMatch r \<in> {EncodeToString d, ''W/'' @ etag (srv w), ''*'',
                                 etag (srv w) @ '', '' @ t}
                \<longrightarrow> status resp = StatusPreconditionFailed)"
proof -
  have len: "length (quote @ EncodeToString d @ quote) = 2 * length d + 2"
    by (simp add: EncodeToString_length quote_def)
  have ex: "etag (srv w) = quote @ EncodeToString d @ quote
            \<and> IfMatch r \<in> {EncodeToString d, ''W/'' @ etag (srv w), ''*'',
                             etag (srv w) @ '', '' @ t}
            \<Longrightarrow> IfMatch r \<noteq> etag (srv w)"
  proof -
    assume h: "etag (srv w) = quote @ EncodeToString d @ quote
            \<and> IfMatch r \<in> {EncodeToString d, ''W/'' @ etag (srv w), ''*'',
                             etag (srv w) @ '', '' @ t}"
    then have "length (IfMatch r) \<noteq> length (etag (srv w))"
      using len by (auto simp: EncodeToString_length)
    then show ?thesis by auto
  qed
  show ?thesis
    using assms ex
    by (auto simp: handlePut_checked split: prod.splits option.splits)
qed

theorem if_match_exact_witness:
  "staged quiet \<and> \<not> Lock_blocks (srv w0)
   \<and> etag (srv w0) = quote @ ''6654c734ccab8f440ff0825eb443dc7f'' @ quote
   \<and> (\<exists>resp w'. handlePut lib0 quiet (put_req ''*'' v2) w0 = (Some resp, w')
         \<and> status resp = StatusPreconditionFailed)
   \<and> (\<exists>resp w'. handlePut lib0 quiet (put_req ''6654c734ccab8f440ff0825eb443dc7f'' v2) w0
           = (Some resp, w')
         \<and> status resp = StatusPreconditionFailed)
   \<and> (\<exists>resp w'. handlePut lib0 quiet (put_req (etag (srv w0)) v2) w0 = (Some resp, w')
         \<and> status resp \<noteq> StatusPreconditionFailed)"
proof -
  have e0: "etag (srv w0) = quote @ ''6654c734ccab8f440ff0825eb443dc7f'' @ quote"
    by (simp add: w0_def etag_srv0)
  have n1: "IfMatch (put_req ''*'' v2) \<noteq> []"
    and n2: "IfMatch (put_req ''6654c734ccab8f440ff0825eb443dc7f'' v2) \<noteq> []"
    and n3: "IfMatch (put_req (etag (srv w0)) v2) \<noteq> []"
    by (simp_all add: put_req_def e0)
  have d1: "IfMatch (put_req ''*'' v2) \<noteq> etag (srv w0)"
    and d2: "IfMatch (put_req ''6654c734ccab8f440ff0825eb443dc7f'' v2) \<noteq> etag (srv w0)"
    and d3: "IfMatch (put_req (etag (srv w0)) v2) = etag (srv w0)"
    by (simp_all add: put_req_def e0 quote_def)
  note t = if_match_exact [OF quiet_no_faults(2) w0_unlocked(1), of _ lib0 "[]" "[]"]
  have "\<exists>resp w'. handlePut lib0 quiet (put_req ''*'' v2) w0 = (Some resp, w')
         \<and> status resp = StatusPreconditionFailed"
    using t [OF n1] d1 by blast
  moreover have "\<exists>resp w'. handlePut lib0 quiet (put_req ''6654c734ccab8f440ff0825eb443dc7f'' v2) w0
           = (Some resp, w')
         \<and> status resp = StatusPreconditionFailed"
    using t [OF n2] d2 by blast
  moreover have "\<exists>resp w'. handlePut lib0 quiet (put_req (etag (srv w0)) v2) w0 = (Some resp, w')
         \<and> status resp \<noteq> StatusPreconditionFailed"
    using t [OF n3] d3 by blast
  ultimately show ?thesis
    using quiet_no_faults(2) w0_unlocked(1) e0 by blast
qed

section \<open>The ETag and the live wiki\<close>

text \<open>
  Claim C1 asks that the ETag always be the token of the bytes of the live wiki. A PUT in
  which \<open>compressWiki\<close> returns an error has renamed the upload onto the wiki already and
  returns before \<open>setEtagFromHash\<close>: it answers 500, the wiki holds the uploaded bytes, and
  the ETag that HEAD reports is the one from before. Unless the upload has the token of
  the old bytes, the ETag is then not the token of the live wiki.
\<close>

theorem etag_left_behind:
  assumes "staged e" and "\<not> Lock_blocks (srv w)"
    and "IfMatch r = [] \<or> IfMatch r = etag (srv w)"
    and "archiveWiki L e (srv w) (files w) = (None, fs1)" and "\<not> rename_err e"
    and "compressWiki L e (srv w) (fs1(resolve L (fileName (srv w)) \<mapsto> Body r)) = (Some err, fs3)"
  shows "handlePut L e r w
           = (Some (WriteHeader StatusInternalServerError Map.empty), w\<lparr>files := fs3\<rparr>)
       \<and> fs3 (resolve L (fileName (srv w))) = Some (Body r)
       \<and> handleHead (w\<lparr>files := fs3\<rparr>)
           = (Some (WriteHeader StatusOK [headerEtag \<mapsto> etag (srv w)]), w\<lparr>files := fs3\<rparr>)
       \<and> (etag (srv w) \<noteq> etag (setEtagFromHash (md5sum L (Body r)) (srv w))
            \<longrightarrow> \<not> etag_current L (w\<lparr>files := fs3\<rparr>))"
proof -
  let ?wiki = "resolve L (fileName (srv w))"
  have put: "handlePut L e r w
           = (Some (WriteHeader StatusInternalServerError Map.empty), w\<lparr>files := fs3\<rparr>)"
    using assms by (auto simp: handlePut_checked)
  have wiki: "fs3 ?wiki = Some (Body r)"
    using compressWiki_frame
      [where q = ?wiki and s = "srv w" and L = L and e = e
         and fs = "fs1(?wiki \<mapsto> Body r)"] assms(6)
    by simp
  have head: "handleHead (w\<lparr>files := fs3\<rparr>)
           = (Some (WriteHeader StatusOK [headerEtag \<mapsto> etag (srv w)]), w\<lparr>files := fs3\<rparr>)"
    using assms(2) by (simp add: handleHead_def RLock_blocks_def Lock_blocks_def)
  have "\<not> etag_current L (w\<lparr>files := fs3\<rparr>)"
    if "etag (srv w) \<noteq> etag (setEtagFromHash (md5sum L (Body r)) (srv w))"
    using that wiki by (simp add: etag_current_def read_all_def)
  then show ?thesis using put wiki head by blast
qed


text \<open>
  Start with \<open>v1\<close>, save \<open>v2\<close> while \<open>os.Create\<close> of the \<open>.gz\<close> file fails: the wiki holds
  \<open>v2\<close>, HEAD reports the token of \<open>v1\<close>, and GET hands the file that holds \<open>v2\<close> to
  \<open>http.ServeContent\<close> under the token of \<open>v1\<close>.
\<close>

theorem etag_left_behind_witness:
  "newServer lib0 quiet disk0 ''index.html'' ''old'' layout0 True True = Inr w0
   \<and> etag_current lib0 w0
   \<and> handlePut lib0 gz_fails (put_req (etag srv0) v2) w0
       = (Some (WriteHeader StatusInternalServerError Map.empty), w_torn)
   \<and> files w_torn wiki_file = Some v2
   \<and> etag (srv w_torn) = quote @ ''6654c734ccab8f440ff0825eb443dc7f'' @ quote
   \<and> etag (setEtagFromHash (md5sum lib0 v2) (srv w_torn))
       = quote @ ''1b267619c4812cc46ee281747884ca50'' @ quote
   \<and> \<not> etag_current lib0 w_torn
   \<and> handleHead w_torn = (Some (WriteHeader StatusOK [headerEtag \<mapsto> etag srv0]), w_torn)
   \<and> handleGet lib0 quiet (get_req []) w_torn
       = (ServeContent [headerContentLength \<mapsto> ''2'', headerEtag \<mapsto> etag srv0] wiki_file,
          w_torn)"
proof -
  let ?r = "put_req (etag srv0) v2"
  have st: "staged gz_fails" by (simp add: gz_fails_def quiet_def staged_def)
  have tok: "IfMatch ?r = [] \<or> IfMatch ?r = etag (srv w0)"
    by (simp add: put_req_def w0_def)
  have ar: "archiveWiki lib0 gz_fails (srv w0) (files w0)
              = (None, (files w0)(old_000 \<mapsto> v1))"
    by (simp add: example_defs step_defs gz_fails_def)
  have rn: "\<not> rename_err gz_fails" by (simp add: gz_fails_def quiet_def)
  have cw: "compressWiki lib0 gz_fails (srv w0)
              (((files w0)(old_000 \<mapsto> v1))(resolve lib0 (fileName (srv w0)) \<mapsto> Body ?r))
            = (Some (ErrCreate ''index.html.gz''), files w_torn)"
    by (auto simp add: example_defs step_defs gz_fails_def w_torn_def fun_eq_iff)
  note t = etag_left_behind [OF st w0_unlocked(1) tok ar rn cw]
  have same: "w0\<lparr>files := files w_torn\<rparr> = w_torn" by (simp add: w0_def w_torn_def)
  have e0: "etag (srv w_torn) = quote @ ''6654c734ccab8f440ff0825eb443dc7f'' @ quote"
    by (simp add: w_torn_def etag_srv0)
  have e2: "etag (setEtagFromHash (md5sum lib0 v2) (srv w_torn))
             = quote @ ''1b267619c4812cc46ee281747884ca50'' @ quote"
    by (simp add: md5_v2)
  have ne: "etag (srv w0) \<noteq> etag (setEtagFromHash (md5sum lib0 (Body ?r)) (srv w0))"
    by (simp add: w0_def etag_srv0 put_req_def md5_v2)
  have cur0: "etag_current lib0 w0"
    by (simp add: etag_current_def example_defs resolve_examples files_apart read_all_def)
  have f: "files w_torn wiki_file = Some v2" by (simp add: w_torn_def files_apart)
  have s0: "etag (srv w0) = etag srv0" by (simp add: w0_def)
  show ?thesis
    using t ne boot0 cur0 f e0 e2 get_torn unfolding same s0 by simp
qed


section \<open>The archive\<close>
















section \<open>A failure of the compressor that is not reported\<close>

lemma returned_error_keeps_etag:
  assumes "staged e" and "\<not> Lock_blocks (srv w)"
    and "IfMatch r = [] \<or> IfMatch r = etag (srv w)"
    and "archiveWiki L e (srv w) (files w) = (ea, fs1)"
    and "compressWiki L e (srv w) (fs1(resolve L (fileName (srv w)) \<mapsto> Body r)) = (ec, fs3)"
    and "ea \<noteq> None \<or> (\<not> rename_err e \<and> ec \<noteq> None)"
  shows "\<exists>resp w'. handlePut L e r w = (Some resp, w')
           \<and> status resp = StatusInternalServerError
           \<and> header resp headerEtag = None
           \<and> srv w' = srv w"
  using assms by (auto simp: handlePut_checked split: option.splits)

text \<open>
  Claim C6 asks that every PUT in which the archiver or the compressor fails abort and
  commit no new ETag. For the errors that \<open>archiveWiki\<close> and \<open>compressWiki\<close> return this is
  so (\<open>returned_error_keeps_etag\<close>). But the compressed bytes reach the file when the
  deferred \<open>dstz.Close()\<close> runs, and its error is dropped: when it fails, \<open>compressWiki\<close>
  returns nil, and the PUT is answered 200 with the new ETag over a cut-off \<open>.gz\<close> file.
\<close>

theorem close_error_commits:
  assumes "staged e" and "\<not> Lock_blocks (srv w)"
    and "IfMatch r = [] \<or> IfMatch r = etag (srv w)"
    and "archiveWiki L e (srv w) (files w) = (None, fs1)" and "\<not> rename_err e"
    and "isCompress (srv w)" and "gzip_ok e" and "gzip_close_err e = Some part"
  shows "handlePut L e r w
           = (Some (WriteHeader StatusOK
                [headerEtag \<mapsto> quote @ EncodeToString (md5sum L (Body r)) @ quote]),
              \<lparr>srv = setEtagFromHash (md5sum L (Body r)) (srv w),
                files = fs1(resolve L (fileName (srv w)) \<mapsto> Body r,
                            resolve L (fileName (srv w) @ extensionGzip) \<mapsto> part)\<rparr>)"
  using assms
  by (auto simp: handlePut_checked compressWiki_def os_Open_def os_Create_def io_Copy_def
                 deferred_Close_def gzip_ok_def)


theorem close_error_commits_witness:
  "handlePut lib0 gz_cut (put_req (etag srv0) v2) w0
     = (Some (WriteHeader StatusOK [headerEtag \<mapsto> etag (srv w_cut)]), w_cut)
   \<and> etag (srv w_cut) = quote @ ''1b267619c4812cc46ee281747884ca50'' @ quote
   \<and> files w_cut wiki_file = Some v2
   \<and> files w_cut gz_file = Some [0x1f, 0x8b, 8]"
proof -
  let ?r = "put_req (etag srv0) v2"
  have st: "staged gz_cut" by (simp add: gz_cut_def quiet_def staged_def)
  have tok: "IfMatch ?r = [] \<or> IfMatch ?r = etag (srv w0)"
    by (simp add: put_req_def w0_def)
  have ar: "archiveWiki lib0 gz_cut (srv w0) (files w0)
              = (None, (files w0)(old_000 \<mapsto> v1))"
    by (simp add: example_defs step_defs gz_cut_def)
  have rn: "\<not> rename_err gz_cut" by (simp add: gz_cut_def quiet_def)
  have ic: "isCompress (srv w0)" by (simp add: w0_def srv0_def)
  have ok: "gzip_ok gz_cut" by (simp add: gz_cut_def quiet_def gzip_ok_def)
  have cl: "gzip_close_err gz_cut = Some [0x1f, 0x8b, 8]" by (simp add: gz_cut_def)
  note t = close_error_commits [OF st w0_unlocked(1) tok ar rn ic ok cl]
  have eq: "\<lparr>srv = setEtagFromHash (md5sum lib0 (Body ?r)) (srv w0),
             files = ((files w0)(old_000 \<mapsto> v1))
                       (resolve lib0 (fileName (srv w0)) \<mapsto> Body ?r,
                        resolve lib0 (fileName (srv w0) @ extensionGzip) \<mapsto> [0x1f, 0x8b, 8])\<rparr>
            = w_cut"
    by (auto simp add: example_defs step_defs w_cut_def fun_eq_iff)
  have hd: "quote @ EncodeToString (md5sum lib0 (Body ?r)) @ quote = etag (srv w_cut)"
    by (simp add: w_cut_def put_req_def)
  have e2: "etag (srv w_cut) = quote @ ''1b267619c4812cc46ee281747884ca50'' @ quote"
    by (simp add: w_cut_def md5_v2)
  have f: "files w_cut wiki_file = Some v2" "files w_cut gz_file = Some [0x1f, 0x8b, 8]"
    by (simp_all add: w_cut_def files_apart)
  show ?thesis
    using t e2 f unfolding eq hd by simp
qed

section \<open>GET of the compressed file\<close>






section \<open>Who writes the compressed file\<close>

text \<open>
  Claim C9, as the code has it. (1) Every request other than a PUT of \<open>/\<close> leaves every
  file as it was. (2) A PUT whose archive file is another file than the \<open>.gz\<close> file
  changes the \<open>.gz\<close> file only if compression is on and the PUT got as far as
  \<open>compressWiki\<close>: the upload staged, the lock taken, the token accepted, \<open>archiveWiki\<close>
  and \<open>os.Rename\<close> without error. (3) After a PUT answered 200 with compression on, if the
  deferred \<open>Close\<close> of the gzip stream did not fail, the \<open>.gz\<close> file holds the gzip of the
  uploaded bytes. (4) \<open>newServer\<close> runs \<open>compressWiki\<close> too: after a start-up with
  compression on, if that \<open>Close\<close> did not fail, the \<open>.gz\<close> file holds the gzip of the wiki.
  Files are told apart by the place their path resolves to, so \<open>./index.html.gz\<close> is the
  \<open>.gz\<close> file.
\<close>

theorem gz_written_by_compressWiki:
  "(Method r \<noteq> ''PUT'' \<or> Path r \<noteq> ''/'' \<longrightarrow> files (snd (ServeHTTP L e r w)) = files w)
   \<and> (archive_spares_gz L (srv w) e
        \<and> files (snd (handlePut L e r w)) (resolve L (fileName (srv w) @ extensionGzip))
            \<noteq> files w (resolve L (fileName (srv w) @ extensionGzip))
      \<longrightarrow> isCompress (srv w) \<and> staged e \<and> \<not> Lock_blocks (srv w)
          \<and> (IfMatch r = [] \<or> IfMatch r = etag (srv w))
          \<and> fst (archiveWiki L e (srv w) (files w)) = None \<and> \<not> rename_err e)
   \<and> (handlePut L e r w = (Some resp, w') \<and> status resp = StatusOK \<and> isCompress (srv w)
        \<and> gzip_close_err e = None
      \<longrightarrow> files w' (resolve L (fileName (srv w) @ extensionGzip)) = Some (gzip L (Body r)))
   \<and> (newServer L e fs f d fmt a c = Inr wb \<and> isCompress (srv wb) \<and> gzip_close_err e = None
      \<longrightarrow> files wb (resolve L (f @ extensionGzip)) = Some (gzip L (read_all fs (resolve L f))))"
proof -
  let ?s = "srv w"
  let ?gz = "resolve L (fileName ?s @ extensionGzip)"
  let ?wiki = "resolve L (fileName ?s)"
  have p1: "files (snd (ServeHTTP L e r w)) = files w"
    if "Method r \<noteq> ''PUT'' \<or> Path r \<noteq> ''/''"
    using that ServeHTTP_not_PUT by blast
  have p2: "isCompress ?s \<and> staged e \<and> \<not> Lock_blocks ?s
          \<and> (IfMatch r = [] \<or> IfMatch r = etag ?s)
          \<and> fst (archiveWiki L e ?s (files w)) = None \<and> \<not> rename_err e"
    if h: "archive_spares_gz L ?s e \<and> files (snd (handlePut L e r w)) ?gz \<noteq> files w ?gz"
  proof -
    have st: "staged e \<and> \<not> Lock_blocks ?s"
      using h by (auto simp: handlePut_def Let_def staged_def wait_Lock_def split: if_splits)
    obtain ea fs1 where a: "archiveWiki L e ?s (files w) = (ea, fs1)" by force
    have keep: "fs1 ?gz = files w ?gz"
    proof (cases "isArchive ?s")
      case True
      then have "?gz \<noteq> resolve L (archivePath e ?s)"
        using h by (auto simp: archive_spares_gz_def)
      from archiveWiki_frame [OF this, where fs = "files w"] a show ?thesis by simp
    next
      case False
      then show ?thesis using a by (simp add: archiveWiki_disabled)
    qed
    have ic: "isCompress ?s"
    proof (rule ccontr)
      assume "\<not> isCompress ?s"
      then have "compressWiki L e ?s (fs1(?wiki \<mapsto> Body r)) = (None, fs1(?wiki \<mapsto> Body r))"
        by (simp add: compressWiki_disabled)
      then have "files (snd (handlePut L e r w)) ?gz = files w ?gz"
        using st a keep by (auto simp: handlePut_checked split: option.splits)
      then show False using h by simp
    qed
    show ?thesis
      using h st a keep ic
      by (auto simp: handlePut_checked split: if_splits option.splits prod.splits)
  qed
  have p3: "files w' ?gz = Some (gzip L (Body r))"
    if h: "handlePut L e r w = (Some resp, w') \<and> status resp = StatusOK \<and> isCompress ?s
           \<and> gzip_close_err e = None"
  proof -
    from h have D: "compressWiki L e ?s
          ((snd (archiveWiki L e ?s (files w)))(?wiki \<mapsto> Body r)) = (None, files w')"
      using handlePut_OK_D [of L e r w resp w'] by simp
    show ?thesis
      using compressWiki_ok [OF D] h by (simp add: read_all_def deferred_Close_def)
  qed
  have p4: "files wb (resolve L (f @ extensionGzip)) = Some (gzip L (read_all fs (resolve L f)))"
    if h: "newServer L e fs f d fmt a c = Inr wb \<and> isCompress (srv wb) \<and> gzip_close_err e = None"
  proof -
    from h have b: "newServer L e fs f d fmt a c = Inr wb" by simp
    have fl: "fileName (srv wb) = f" using newServer_flags [OF b] by simp
    have c: "compressWiki L e (srv wb) fs = (None, files wb)"
      using newServer_files [OF b] by simp
    show ?thesis
      using compressWiki_ok [OF c] h fl by (simp add: deferred_Close_def)
  qed
  show ?thesis
    using p1 p2 p3 p4 by blast
qed


theorem gz_written_by_compressWiki_witness:
  "files (snd (ServeHTTP lib0 quiet (get_req ''gzip, deflate'') w0)) = files w0
   \<and> handlePut lib0 quiet (put_req [] v2) w0
       = (Some (WriteHeader StatusOK [headerEtag \<mapsto> etag (srv w1)]), w1)
   \<and> files w1 gz_file = Some (gzip_stored v2)
   \<and> files (snd (handlePut lib0 quiet (put_req ''*'' v2) w0)) gz_file = files w0 gz_file"
proof -
  have p: "handlePut lib0 quiet (put_req [] v2) w0
       = (Some (WriteHeader StatusOK [headerEtag \<mapsto> etag (srv w1)]), w1)"
    by (simp add: put_v2)
  have g: "Method (get_req ''gzip, deflate'') \<noteq> ''PUT'' \<or> Path (get_req ''gzip, deflate'') \<noteq> ''/''"
    by (simp add: get_req_def)
  have c: "isCompress (srv w0)" "resolve lib0 (fileName (srv w0) @ extensionGzip) = gz_file"
    by (simp_all add: w0_def srv0_def extensionGzip_def resolve_examples)
  have s: "status (WriteHeader StatusOK [headerEtag \<mapsto> etag (srv w1)]) = StatusOK"
    by simp
  have n: "\<not> (staged quiet \<and> \<not> Lock_blocks (srv w0)
          \<and> (IfMatch (put_req ''*'' v2) = [] \<or> IfMatch (put_req ''*'' v2) = etag (srv w0)))"
    by (simp add: put_req_def w0_def etag_srv0 quote_def)
  have a: "archive_spares_gz lib0 (srv w0) quiet"
    by (simp add: archive_spares_gz_def archivePath_def w0_def srv0_def quiet_def
                  extensionGzip_def layout0_def resolve_examples files_apart)
  have q: "gzip_close_err quiet = None" by (simp add: quiet_def)
  note t1 = gz_written_by_compressWiki
    [where r = "get_req ''gzip, deflate''" and L = lib0 and e = quiet and w = w0]
  note t2 = gz_written_by_compressWiki
    [where r = "put_req [] v2" and L = lib0 and e = quiet and w = w0
       and resp = "WriteHeader StatusOK [headerEtag \<mapsto> etag (srv w1)]" and w' = w1]
  note t3 = gz_written_by_compressWiki
    [where r = "put_req ''*'' v2" and L = lib0 and e = quiet and w = w0]
  have r1: "files (snd (ServeHTTP lib0 quiet (get_req ''gzip, deflate'') w0)) = files w0"
    using t1 g by blast
  have r2: "files w1 gz_file = Some (gzip_stored v2)"
    using t2 p s c q by (simp add: put_req_def)
  have r3: "files (snd (handlePut lib0 quiet (put_req ''*'' v2) w0)) gz_file = files w0 gz_file"
    using t3 n a c by auto
  show ?thesis using r1 p r2 r3 by blast
qed

text \<open>
  As stated, C9 fails: the \<open>.gz\<close> file is created at start-up, before any PUT; and a PUT
  in which \<open>io.Copy\<close> into the gzip stream breaks off is answered 500, so it is not a
  successful write, yet \<open>os.Create\<close> and the copy have replaced the \<open>.gz\<close> file.
\<close>

theorem gz_written_by_compressWiki_counterexample:
  "disk0 gz_file = None
   \<and> resolve lib0 ''index.html.gz'' = gz_file
   \<and> newServer lib0 quiet disk0 ''index.html'' ''old'' layout0 True True = Inr w0
   \<and> files w0 gz_file = Some (gzip_stored v1)
   \<and> fst (handlePut lib0 gz_breaks (put_req [] v2) w0)
       = Some (WriteHeader StatusInternalServerError Map.empty)
   \<and> files (snd (handlePut lib0 gz_breaks (put_req [] v2) w0)) gz_file
       = Some [0x1f, 0x8b, 8]"
proof -
  have a: "disk0 gz_file = None" by (simp add: disk0_def files_apart)
  have b: "files w0 gz_file = Some (gzip_stored v1)" by (simp add: w0_def)
  have c: "fst (handlePut lib0 gz_breaks (put_req [] v2) w0)
       = Some (WriteHeader StatusInternalServerError Map.empty)"
    by (simp add: example_defs step_defs gz_breaks_def Let_def)
  have d: "files (snd (handlePut lib0 gz_breaks (put_req [] v2) w0)) gz_file
       = Some [0x1f, 0x8b, 8]"
    by (simp add: example_defs step_defs gz_breaks_def Let_def)
  show ?thesis using a b c d boot0 resolve_examples(5) by blast
qed

section \<open>The compression flag\<close>

text \<open>
  Claim C3 asks that compression follow its own flag. \<open>newServer\<close> stores the archive flag
  in \<open>isCompress\<close> and never reads its \<open>isCompress\<close> argument: the server it returns
  has \<open>isCompress\<close> equal to the archive flag, and the same server results from the
  opposite compression flag.
\<close>

theorem compress_flag_is_archive_flag:
  assumes "newServer L e fs f d fmt a c = Inr wb"
  shows "isCompress (srv wb) = a \<and> newServer L e fs f d fmt a (\<not> c) = Inr wb"
  using newServer_flags [OF assms] assms by (simp add: newServer_def)


text \<open>
  With \<open>--compress=false\<close> (and archiving on) the \<open>.gz\<close> file is written and handed to
  \<open>http.ServeContent\<close>; with \<open>--archive=false --compress=true\<close> it is neither.
\<close>

theorem compress_flag_is_archive_flag_witness:
  "newServer lib0 quiet disk0 ''index.html'' ''old'' layout0 True False = Inr w0
   \<and> isCompress (srv w0)
   \<and> files w0 gz_file = Some (gzip_stored v1)
   \<and> handleGet lib0 quiet (get_req ''gzip'') w0
       = (ServeContent [headerContentEncoding \<mapsto> encodingGzip,
                        headerContentLength \<mapsto> FormatInt10 (length (gzip_stored v1)),
                        headerEtag \<mapsto> etag srv0] gz_file, w0)
   \<and> newServer lib0 quiet disk0 ''index.html'' ''old'' layout0 False True = Inr w_plain
   \<and> \<not> isCompress (srv w_plain)
   \<and> files w_plain gz_file = None
   \<and> handleGet lib0 quiet (get_req ''gzip'') w_plain
       = (ServeContent [headerContentLength \<mapsto> ''2'', headerEtag \<mapsto> etag srv0] wiki_file,
          w_plain)"
proof -
  have a: "isCompress (srv w0) = True
           \<and> newServer lib0 quiet disk0 ''index.html'' ''old'' layout0 True (\<not> True) = Inr w0"
    by (rule compress_flag_is_archive_flag [OF boot0])
  have b: "isCompress (srv w_plain) = False"
    using compress_flag_is_archive_flag [OF boot_plain] by simp
  have c: "files w0 gz_file = Some (gzip_stored v1)" by (simp add: w0_def)
  have d: "files w_plain gz_file = None" by (simp add: w_plain_def disk0_def files_apart)
  show ?thesis
    using a b c d boot_plain get_gzip_w0 get_gzip_w_plain by simp
qed

end
